theory Spec2Isabelle
  imports Main "HOL-Library.Word"
begin

unbundle bit_operations_syntax

section \<open>Platform types and constants\<close>

text \<open>
  The library is written against the Win32 headers. \<open>WORD\<close> and \<open>uint16_t\<close> are 16-bit,
  \<open>DWORD\<close> and \<open>UINT\<close> are 32-bit unsigned values; \<open>size_t\<close> is taken at its 64-bit
  width. The C type \<open>int\<close> is modelled by \<open>int\<close> with the 32-bit two's-complement
  wrap-around written out at every arithmetic operation (\<open>i32\<close>), and C's division, which
  truncates towards zero, by \<open>c_div\<close>.
\<close>

type_synonym WORD = "16 word"
type_synonym DWORD = "32 word"
type_synonym UINT = "32 word"
type_synonym size_t = "64 word"
type_synonym ScanCode = "16 word"
type_synonym VIRTUAL_KEY = "16 word"

definition i32 :: "int \<Rightarrow> int" where
  "i32 n = (n + 2147483648) mod 4294967296 - 2147483648"

definition is_i32 :: "int \<Rightarrow> bool" where
  "is_i32 n = (- 2147483648 \<le> n \<and> n \<le> 2147483647)"

definition c_div :: "int \<Rightarrow> int \<Rightarrow> int" where
  "c_div a b = sgn a * sgn b * (\<bar>a\<bar> div \<bar>b\<bar>)"

text \<open>Virtual-key codes of \<open>WinUser.h\<close>; the character literals \<open>'A'\<close>..\<open>'Z'\<close> and
  \<open>'0'\<close>..\<open>'9'\<close> of the source are their ASCII codes 0x41..0x5A and 0x30..0x39.\<close>

abbreviation VK_BACK :: WORD where "VK_BACK \<equiv> 0x08"
abbreviation VK_TAB :: WORD where "VK_TAB \<equiv> 0x09"
abbreviation VK_RETURN :: WORD where "VK_RETURN \<equiv> 0x0D"
abbreviation VK_SHIFT :: WORD where "VK_SHIFT \<equiv> 0x10"
abbreviation VK_CONTROL :: WORD where "VK_CONTROL \<equiv> 0x11"
abbreviation VK_MENU :: WORD where "VK_MENU \<equiv> 0x12"
abbreviation VK_PAUSE :: WORD where "VK_PAUSE \<equiv> 0x13"
abbreviation VK_CAPITAL :: WORD where "VK_CAPITAL \<equiv> 0x14"
abbreviation VK_ESCAPE :: WORD where "VK_ESCAPE \<equiv> 0x1B"
abbreviation VK_SPACE :: WORD where "VK_SPACE \<equiv> 0x20"
abbreviation VK_PRIOR :: WORD where "VK_PRIOR \<equiv> 0x21"
abbreviation VK_NEXT :: WORD where "VK_NEXT \<equiv> 0x22"
abbreviation VK_END :: WORD where "VK_END \<equiv> 0x23"
abbreviation VK_HOME :: WORD where "VK_HOME \<equiv> 0x24"
abbreviation VK_LEFT :: WORD where "VK_LEFT \<equiv> 0x25"
abbreviation VK_UP :: WORD where "VK_UP \<equiv> 0x26"
abbreviation VK_RIGHT :: WORD where "VK_RIGHT \<equiv> 0x27"
abbreviation VK_DOWN :: WORD where "VK_DOWN \<equiv> 0x28"
abbreviation VK_SNAPSHOT :: WORD where "VK_SNAPSHOT \<equiv> 0x2C"
abbreviation VK_INSERT :: WORD where "VK_INSERT \<equiv> 0x2D"
abbreviation VK_DELETE :: WORD where "VK_DELETE \<equiv> 0x2E"
abbreviation VK_LWIN :: WORD where "VK_LWIN \<equiv> 0x5B"
abbreviation VK_RWIN :: WORD where "VK_RWIN \<equiv> 0x5C"
abbreviation VK_APPS :: WORD where "VK_APPS \<equiv> 0x5D"
abbreviation VK_NUMPAD0 :: WORD where "VK_NUMPAD0 \<equiv> 0x60"
abbreviation VK_NUMPAD1 :: WORD where "VK_NUMPAD1 \<equiv> 0x61"
abbreviation VK_NUMPAD2 :: WORD where "VK_NUMPAD2 \<equiv> 0x62"
abbreviation VK_NUMPAD3 :: WORD where "VK_NUMPAD3 \<equiv> 0x63"
abbreviation VK_NUMPAD4 :: WORD where "VK_NUMPAD4 \<equiv> 0x64"
abbreviation VK_NUMPAD5 :: WORD where "VK_NUMPAD5 \<equiv> 0x65"
abbreviation VK_NUMPAD6 :: WORD where "VK_NUMPAD6 \<equiv> 0x66"
abbreviation VK_NUMPAD7 :: WORD where "VK_NUMPAD7 \<equiv> 0x67"
abbreviation VK_NUMPAD8 :: WORD where "VK_NUMPAD8 \<equiv> 0x68"
abbreviation VK_NUMPAD9 :: WORD where "VK_NUMPAD9 \<equiv> 0x69"
abbreviation VK_MULTIPLY :: WORD where "VK_MULTIPLY \<equiv> 0x6A"
abbreviation VK_ADD :: WORD where "VK_ADD \<equiv> 0x6B"
abbreviation VK_SUBTRACT :: WORD where "VK_SUBTRACT \<equiv> 0x6D"
abbreviation VK_DECIMAL :: WORD where "VK_DECIMAL \<equiv> 0x6E"
abbreviation VK_DIVIDE :: WORD where "VK_DIVIDE \<equiv> 0x6F"
abbreviation VK_F1 :: WORD where "VK_F1 \<equiv> 0x70"
abbreviation VK_F2 :: WORD where "VK_F2 \<equiv> 0x71"
abbreviation VK_F3 :: WORD where "VK_F3 \<equiv> 0x72"
abbreviation VK_F4 :: WORD where "VK_F4 \<equiv> 0x73"
abbreviation VK_F5 :: WORD where "VK_F5 \<equiv> 0x74"
abbreviation VK_F6 :: WORD where "VK_F6 \<equiv> 0x75"
abbreviation VK_F7 :: WORD where "VK_F7 \<equiv> 0x76"
abbreviation VK_F8 :: WORD where "VK_F8 \<equiv> 0x77"
abbreviation VK_F9 :: WORD where "VK_F9 \<equiv> 0x78"
abbreviation VK_F10 :: WORD where "VK_F10 \<equiv> 0x79"
abbreviation VK_F11 :: WORD where "VK_F11 \<equiv> 0x7A"
abbreviation VK_F12 :: WORD where "VK_F12 \<equiv> 0x7B"
abbreviation VK_F13 :: WORD where "VK_F13 \<equiv> 0x7C"
abbreviation VK_F14 :: WORD where "VK_F14 \<equiv> 0x7D"
abbreviation VK_F15 :: WORD where "VK_F15 \<equiv> 0x7E"
abbreviation VK_F16 :: WORD where "VK_F16 \<equiv> 0x7F"
abbreviation VK_F17 :: WORD where "VK_F17 \<equiv> 0x80"
abbreviation VK_F18 :: WORD where "VK_F18 \<equiv> 0x81"
abbreviation VK_F19 :: WORD where "VK_F19 \<equiv> 0x82"
abbreviation VK_F20 :: WORD where "VK_F20 \<equiv> 0x83"
abbreviation VK_F21 :: WORD where "VK_F21 \<equiv> 0x84"
abbreviation VK_F22 :: WORD where "VK_F22 \<equiv> 0x85"
abbreviation VK_F23 :: WORD where "VK_F23 \<equiv> 0x86"
abbreviation VK_F24 :: WORD where "VK_F24 \<equiv> 0x87"
abbreviation VK_NUMLOCK :: WORD where "VK_NUMLOCK \<equiv> 0x90"
abbreviation VK_SCROLL :: WORD where "VK_SCROLL \<equiv> 0x91"
abbreviation VK_RSHIFT :: WORD where "VK_RSHIFT \<equiv> 0xA1"
abbreviation VK_RCONTROL :: WORD where "VK_RCONTROL \<equiv> 0xA3"
abbreviation VK_RMENU :: WORD where "VK_RMENU \<equiv> 0xA5"

text \<open>Flags of \<open>KEYBDINPUT\<close> and \<open>MOUSEINPUT\<close>, the wheel unit and the two mapping
  types of \<open>MapVirtualKeyEx\<close> that the library uses.\<close>

abbreviation KEYEVENTF_EXTENDEDKEY :: DWORD where "KEYEVENTF_EXTENDEDKEY \<equiv> 0x0001"
abbreviation KEYEVENTF_KEYUP :: DWORD where "KEYEVENTF_KEYUP \<equiv> 0x0002"
abbreviation KEYEVENTF_UNICODE :: DWORD where "KEYEVENTF_UNICODE \<equiv> 0x0004"
abbreviation KEYEVENTF_SCANCODE :: DWORD where "KEYEVENTF_SCANCODE \<equiv> 0x0008"

abbreviation MOUSEEVENTF_MOVE :: DWORD where "MOUSEEVENTF_MOVE \<equiv> 0x0001"
abbreviation MOUSEEVENTF_LEFTDOWN :: DWORD where "MOUSEEVENTF_LEFTDOWN \<equiv> 0x0002"
abbreviation MOUSEEVENTF_LEFTUP :: DWORD where "MOUSEEVENTF_LEFTUP \<equiv> 0x0004"
abbreviation MOUSEEVENTF_RIGHTDOWN :: DWORD where "MOUSEEVENTF_RIGHTDOWN \<equiv> 0x0008"
abbreviation MOUSEEVENTF_RIGHTUP :: DWORD where "MOUSEEVENTF_RIGHTUP \<equiv> 0x0010"
abbreviation MOUSEEVENTF_MIDDLEDOWN :: DWORD where "MOUSEEVENTF_MIDDLEDOWN \<equiv> 0x0020"
abbreviation MOUSEEVENTF_MIDDLEUP :: DWORD where "MOUSEEVENTF_MIDDLEUP \<equiv> 0x0040"
abbreviation MOUSEEVENTF_XDOWN :: DWORD where "MOUSEEVENTF_XDOWN \<equiv> 0x0080"
abbreviation MOUSEEVENTF_XUP :: DWORD where "MOUSEEVENTF_XUP \<equiv> 0x0100"
abbreviation MOUSEEVENTF_WHEEL :: DWORD where "MOUSEEVENTF_WHEEL \<equiv> 0x0800"
abbreviation MOUSEEVENTF_HWHEEL :: DWORD where "MOUSEEVENTF_HWHEEL \<equiv> 0x1000"
abbreviation MOUSEEVENTF_ABSOLUTE :: DWORD where "MOUSEEVENTF_ABSOLUTE \<equiv> 0x8000"

abbreviation WHEEL_DELTA :: int where "WHEEL_DELTA \<equiv> 120"

abbreviation MAPVK_VSC_TO_VK_EX :: UINT where "MAPVK_VSC_TO_VK_EX \<equiv> 3"
abbreviation MAPVK_VK_TO_VSC_EX :: UINT where "MAPVK_VK_TO_VSC_EX \<equiv> 4"

section \<open>The declarations of \<open>bego.h\<close>\<close>

datatype Direction = Click | Press | Release

datatype Button =
  Left | Middle | Right | Back | Forward | ScrollUp | ScrollDown | ScrollLeft | ScrollRight

datatype Axis = Horizontal | Vertical

datatype Coordinate = Abs | Rel

datatype InputError_Type = Simulate | InvalidInput | Mapping

text \<open>
  What a call can end with instead of returning: an \<open>InputError\<close> of one of the three
  types, or the integer division by zero of \<open>move_mouse\<close> on a display dimension of one
  pixel, which is a hardware trap and no C++ exception.
\<close>

datatype error = InputError InputError_Type | DivideByZero

datatype (plugins only: size) Key =
    A | B | C | D | E | F | G | H | I | J | K | L | M
  | N | O | P | Q | R | S | T | U | V | W | X | Y | Z
  | Num0 | Num1 | Num2 | Num3 | Num4 | Num5 | Num6 | Num7 | Num8 | Num9
  | F1 | F2 | F3 | F4 | F5 | F6 | F7 | F8 | F9 | F10 | F11 | F12
  | F13 | F14 | F15 | F16 | F17 | F18 | F19 | F20 | F21 | F22 | F23 | F24
  | Return | Tab | Space | Backspace | Escape | Delete | CapsLock
  | Control | Alt | Shift | Super | RightControl | RightAlt | RightShift | RightSuper
  | Up | Down | Left | Right | Home | End | PageUp | PageDown | Insert
  | Numpad0 | Numpad1 | Numpad2 | Numpad3 | Numpad4
  | Numpad5 | Numpad6 | Numpad7 | Numpad8 | Numpad9
  | NumpadMultiply | NumpadAdd | NumpadSubtract | NumpadDivide | NumpadDecimal
  | PrintScreen | ScrollLock | Pause | Menu
  | Unicode

record Settings =
  windows_dw_extra_info :: size_t
  release_keys_when_dropped :: bool
  windows_subject_to_mouse_speed_and_acceleration_level :: bool

abbreviation EVENT_MARKER :: size_t where "EVENT_MARKER \<equiv> 0x12345678"

section \<open>Key conversion (\<open>key_converter.cpp\<close>)\<close>

text \<open>The table \<open>key_map\<close> of \<open>key_to_vk\<close>, entry by entry.\<close>

definition key_map :: "(Key \<times> WORD) list" where
  "key_map =
    [(Key.A, 0x41), (Key.B, 0x42), (Key.C, 0x43), (Key.D, 0x44), (Key.E, 0x45),
     (Key.F, 0x46), (Key.G, 0x47), (Key.H, 0x48), (Key.I, 0x49), (Key.J, 0x4A),
     (Key.K, 0x4B), (Key.L, 0x4C), (Key.M, 0x4D), (Key.N, 0x4E), (Key.O, 0x4F),
     (Key.P, 0x50), (Key.Q, 0x51), (Key.R, 0x52), (Key.S, 0x53), (Key.T, 0x54),
     (Key.U, 0x55), (Key.V, 0x56), (Key.W, 0x57), (Key.X, 0x58), (Key.Y, 0x59),
     (Key.Z, 0x5A),
     (Num0, 0x30), (Num1, 0x31), (Num2, 0x32), (Num3, 0x33), (Num4, 0x34),
     (Num5, 0x35), (Num6, 0x36), (Num7, 0x37), (Num8, 0x38), (Num9, 0x39),
     (F1, VK_F1), (F2, VK_F2), (F3, VK_F3), (F4, VK_F4),
     (F5, VK_F5), (F6, VK_F6), (F7, VK_F7), (F8, VK_F8),
     (F9, VK_F9), (F10, VK_F10), (F11, VK_F11), (F12, VK_F12),
     (F13, VK_F13), (F14, VK_F14), (F15, VK_F15), (F16, VK_F16),
     (F17, VK_F17), (F18, VK_F18), (F19, VK_F19), (F20, VK_F20),
     (F21, VK_F21), (F22, VK_F22), (F23, VK_F23), (F24, VK_F24),
     (Return, VK_RETURN), (Tab, VK_TAB), (Space, VK_SPACE),
     (Backspace, VK_BACK), (Escape, VK_ESCAPE), (Delete, VK_DELETE),
     (CapsLock, VK_CAPITAL),
     (Control, VK_CONTROL), (Alt, VK_MENU), (Shift, VK_SHIFT),
     (Super, VK_LWIN), (RightControl, VK_RCONTROL), (RightAlt, VK_RMENU),
     (RightShift, VK_RSHIFT), (RightSuper, VK_RWIN),
     (Up, VK_UP), (Down, VK_DOWN), (Key.Left, VK_LEFT), (Key.Right, VK_RIGHT),
     (Home, VK_HOME), (End, VK_END), (PageUp, VK_PRIOR), (PageDown, VK_NEXT),
     (Insert, VK_INSERT),
     (Numpad0, VK_NUMPAD0), (Numpad1, VK_NUMPAD1), (Numpad2, VK_NUMPAD2),
     (Numpad3, VK_NUMPAD3), (Numpad4, VK_NUMPAD4), (Numpad5, VK_NUMPAD5),
     (Numpad6, VK_NUMPAD6), (Numpad7, VK_NUMPAD7), (Numpad8, VK_NUMPAD8),
     (Numpad9, VK_NUMPAD9), (NumpadMultiply, VK_MULTIPLY), (NumpadAdd, VK_ADD),
     (NumpadSubtract, VK_SUBTRACT), (NumpadDivide, VK_DIVIDE),
     (NumpadDecimal, VK_DECIMAL),
     (PrintScreen, VK_SNAPSHOT), (ScrollLock, VK_SCROLL), (Pause, VK_PAUSE),
     (Menu, VK_APPS)]"

definition key_to_vk :: "Key \<Rightarrow> error + WORD" where
  "key_to_vk key =
    (case map_of key_map key of
       Some vk \<Rightarrow> Inr vk
     | None \<Rightarrow> if key = Unicode then Inr 0 else Inl (InputError Mapping))"

text \<open>The \<open>switch\<close> of \<open>vk_to_key\<close>, label by label, and its \<open>default\<close>.\<close>

definition vk_to_key :: "WORD \<Rightarrow> error + Key" where
  "vk_to_key vk =
    (if vk = 0x41 then Inr Key.A else if vk = 0x42 then Inr Key.B
     else if vk = 0x43 then Inr Key.C else if vk = 0x44 then Inr Key.D
     else if vk = 0x45 then Inr Key.E else if vk = 0x46 then Inr Key.F
     else if vk = 0x47 then Inr Key.G else if vk = 0x48 then Inr Key.H
     else if vk = 0x49 then Inr Key.I else if vk = 0x4A then Inr Key.J
     else if vk = 0x4B then Inr Key.K else if vk = 0x4C then Inr Key.L
     else if vk = 0x4D then Inr Key.M else if vk = 0x4E then Inr Key.N
     else if vk = 0x4F then Inr Key.O else if vk = 0x50 then Inr Key.P
     else if vk = 0x51 then Inr Key.Q else if vk = 0x52 then Inr Key.R
     else if vk = 0x53 then Inr Key.S else if vk = 0x54 then Inr Key.T
     else if vk = 0x55 then Inr Key.U else if vk = 0x56 then Inr Key.V
     else if vk = 0x57 then Inr Key.W else if vk = 0x58 then Inr Key.X
     else if vk = 0x59 then Inr Key.Y else if vk = 0x5A then Inr Key.Z
     else if vk = 0x30 then Inr Num0 else if vk = 0x31 then Inr Num1
     else if vk = 0x32 then Inr Num2 else if vk = 0x33 then Inr Num3
     else if vk = 0x34 then Inr Num4 else if vk = 0x35 then Inr Num5
     else if vk = 0x36 then Inr Num6 else if vk = 0x37 then Inr Num7
     else if vk = 0x38 then Inr Num8 else if vk = 0x39 then Inr Num9
     else if vk = VK_F1 then Inr F1 else if vk = VK_F2 then Inr F2
     else if vk = VK_F3 then Inr F3 else if vk = VK_F4 then Inr F4
     else if vk = VK_F5 then Inr F5 else if vk = VK_F6 then Inr F6
     else if vk = VK_F7 then Inr F7 else if vk = VK_F8 then Inr F8
     else if vk = VK_F9 then Inr F9 else if vk = VK_F10 then Inr F10
     else if vk = VK_F11 then Inr F11 else if vk = VK_F12 then Inr F12
     else if vk = VK_F13 then Inr F13 else if vk = VK_F14 then Inr F14
     else if vk = VK_F15 then Inr F15 else if vk = VK_F16 then Inr F16
     else if vk = VK_F17 then Inr F17 else if vk = VK_F18 then Inr F18
     else if vk = VK_F19 then Inr F19 else if vk = VK_F20 then Inr F20
     else if vk = VK_F21 then Inr F21 else if vk = VK_F22 then Inr F22
     else if vk = VK_F23 then Inr F23 else if vk = VK_F24 then Inr F24
     else if vk = VK_RETURN then Inr Return else if vk = VK_TAB then Inr Tab
     else if vk = VK_SPACE then Inr Space else if vk = VK_BACK then Inr Backspace
     else if vk = VK_ESCAPE then Inr Escape else if vk = VK_DELETE then Inr Delete
     else if vk = VK_CAPITAL then Inr CapsLock
     else if vk = VK_CONTROL then Inr Control else if vk = VK_MENU then Inr Alt
     else if vk = VK_SHIFT then Inr Shift else if vk = VK_LWIN then Inr Super
     else if vk = VK_RCONTROL then Inr RightControl
     else if vk = VK_RMENU then Inr RightAlt
     else if vk = VK_RSHIFT then Inr RightShift
     else if vk = VK_RWIN then Inr RightSuper
     else if vk = VK_UP then Inr Up else if vk = VK_DOWN then Inr Down
     else if vk = VK_LEFT then Inr Key.Left else if vk = VK_RIGHT then Inr Key.Right
     else if vk = VK_HOME then Inr Home else if vk = VK_END then Inr End
     else if vk = VK_PRIOR then Inr PageUp else if vk = VK_NEXT then Inr PageDown
     else if vk = VK_INSERT then Inr Insert
     else if vk = VK_NUMPAD0 then Inr Numpad0 else if vk = VK_NUMPAD1 then Inr Numpad1
     else if vk = VK_NUMPAD2 then Inr Numpad2 else if vk = VK_NUMPAD3 then Inr Numpad3
     else if vk = VK_NUMPAD4 then Inr Numpad4 else if vk = VK_NUMPAD5 then Inr Numpad5
     else if vk = VK_NUMPAD6 then Inr Numpad6 else if vk = VK_NUMPAD7 then Inr Numpad7
     else if vk = VK_NUMPAD8 then Inr Numpad8 else if vk = VK_NUMPAD9 then Inr Numpad9
     else if vk = VK_MULTIPLY then Inr NumpadMultiply
     else if vk = VK_ADD then Inr NumpadAdd
     else if vk = VK_SUBTRACT then Inr NumpadSubtract
     else if vk = VK_DIVIDE then Inr NumpadDivide
     else if vk = VK_DECIMAL then Inr NumpadDecimal
     else if vk = VK_SNAPSHOT then Inr PrintScreen
     else if vk = VK_SCROLL then Inr ScrollLock
     else if vk = VK_PAUSE then Inr Pause
     else if vk = VK_APPS then Inr Menu
     else Inl (InputError Mapping))"

section \<open>Event descriptors and the operating system\<close>

text \<open>
  An \<open>INPUT\<close> structure is either a keyboard event (\<open>dwFlags\<close>, \<open>wVk\<close>, \<open>wScan\<close>,
  \<open>dwExtraInfo\<close>) or a mouse event (\<open>dwFlags\<close>, \<open>mouseData\<close>, \<open>dx\<close>, \<open>dy\<close>,
  \<open>dwExtraInfo\<close>).
\<close>

datatype INPUT =
    KeybdInput DWORD WORD WORD size_t
  | MouseInput DWORD int int int size_t

text \<open>
  Modelled from the spec: \<open>create_keybd_event\<close> and \<open>create_mouse_event\<close> are declared
  in \<open>bego_win.h\<close> and defined in no source file. A key transition carries the native
  code, the flags and the marker tag, a mouse transition the action flags, the payload,
  \<open>dx\<close>, \<open>dy\<close> and the marker tag: each is the record of the arguments it is built from.
\<close>

definition create_keybd_event :: "DWORD \<Rightarrow> WORD \<Rightarrow> WORD \<Rightarrow> size_t \<Rightarrow> INPUT" where
  "create_keybd_event flags vk scan dw_extra = KeybdInput flags vk scan dw_extra"

definition create_mouse_event :: "DWORD \<Rightarrow> int \<Rightarrow> int \<Rightarrow> int \<Rightarrow> size_t \<Rightarrow> INPUT" where
  "create_mouse_event flags data dx dy dw_extra = MouseInput flags data dx dy dw_extra"

text \<open>
  What the library asks of Windows, as parameters of the model: the layout's
  \<open>MapVirtualKeyEx\<close>; whether \<open>SendInput\<close> takes a batch, given the batches handed to it
  before; the two values of \<open>GetSystemMetrics\<close> for the primary display; the cursor
  position, \<open>None\<close> when \<open>GetCursorPos\<close> fails; and the contents of the local array
  \<open>buffer\<close> of \<open>text\<close>, which the source never initialises.
\<close>

record winapi =
  MapVirtualKeyEx :: "UINT \<Rightarrow> UINT \<Rightarrow> UINT"
  SendInput_ok :: "INPUT list list \<Rightarrow> INPUT list \<Rightarrow> bool"
  GetSystemMetrics_screen :: "int \<times> int"
  GetCursorPos :: "(int \<times> int) option"
  text_buffer :: "WORD \<times> WORD"

section \<open>The class \<open>Bego\<close> (\<open>bego_win.cpp\<close>)\<close>

text \<open>
  The members of the class, and one ghost field: \<open>sent\<close> lists the batches the instance
  has handed to \<open>send_input\<close>, oldest first, whether or not the sink took them.
\<close>

record Bego =
  held_keys :: "Key list"
  held_scancodes :: "ScanCode list"
  release_keys_when_dropped :: bool
  dw_extra_info :: size_t
  windows_subject_to_mouse_speed_and_acceleration_level :: bool
  sent :: "INPUT list list"

text \<open>\<open>Settings::Settings()\<close> of \<open>settings.cpp\<close>.\<close>

definition Settings_ctor :: Settings where
  "Settings_ctor =
    \<lparr>Settings.windows_dw_extra_info = EVENT_MARKER,
     Settings.release_keys_when_dropped = True,
     Settings.windows_subject_to_mouse_speed_and_acceleration_level = False\<rparr>"

definition Bego_ctor :: "Settings \<Rightarrow> Bego" where
  "Bego_ctor settings =
    \<lparr>held_keys = [],
     held_scancodes = [],
     release_keys_when_dropped = Settings.release_keys_when_dropped settings,
     dw_extra_info =
       (if Settings.windows_dw_extra_info settings \<noteq> 0
        then Settings.windows_dw_extra_info settings else EVENT_MARKER),
     windows_subject_to_mouse_speed_and_acceleration_level =
       Settings.windows_subject_to_mouse_speed_and_acceleration_level settings,
     sent = []\<rparr>"

text \<open>
  Modelled from the spec: \<open>send_input\<close> is declared in \<open>bego_win.h\<close> and defined in no
  source file. The sink takes one ordered batch and reports success or failure; a failure
  of the sink is an error of kind Simulate.
\<close>

definition send_input :: "winapi \<Rightarrow> INPUT list \<Rightarrow> Bego \<Rightarrow> error option \<times> Bego" where
  "send_input os input this =
    (if SendInput_ok os (sent this) input then None else Some (InputError Simulate),
     this\<lparr>sent := sent this @ [input]\<rparr>)"

definition translate_key :: "winapi \<Rightarrow> WORD \<Rightarrow> UINT \<Rightarrow> WORD" where
  "translate_key os input map_type = ucast (MapVirtualKeyEx os (ucast input) map_type)"

definition is_extended_key :: "VIRTUAL_KEY \<Rightarrow> bool" where
  "is_extended_key vk =
    (vk = VK_RMENU \<or> vk = VK_RCONTROL \<or> vk = VK_UP \<or> vk = VK_DOWN \<or> vk = VK_LEFT
     \<or> vk = VK_RIGHT \<or> vk = VK_INSERT \<or> vk = VK_DELETE \<or> vk = VK_HOME \<or> vk = VK_END
     \<or> vk = VK_PRIOR \<or> vk = VK_NEXT \<or> vk = VK_NUMLOCK \<or> vk = VK_SNAPSHOT
     \<or> vk = VK_DIVIDE)"

definition queue_key ::
  "winapi \<Rightarrow> Bego \<Rightarrow> INPUT list \<Rightarrow> Key \<Rightarrow> Direction \<Rightarrow> error + INPUT list" where
  "queue_key os this input_queue key direction =
    (case key_to_vk key of
       Inl e \<Rightarrow> Inl e
     | Inr vk \<Rightarrow>
         let scan = translate_key os vk MAPVK_VK_TO_VSC_EX;
             keyflags = (if is_extended_key vk then 0 OR KEYEVENTF_EXTENDEDKEY else 0);
             queue1 =
               (if direction = Click \<or> direction = Press
                then input_queue @ [create_keybd_event keyflags vk scan (dw_extra_info this)]
                else input_queue);
             queue2 =
               (if direction = Click \<or> direction = Release
                then queue1 @ [create_keybd_event (keyflags OR KEYEVENTF_KEYUP) vk scan
                                 (dw_extra_info this)]
                else queue1)
         in Inr queue2)"

text \<open>
  \<open>wchar_t\<close> is the 16-bit unsigned type of the Windows ABI, so the comparison of
  \<open>character\<close> with \<open>0x10000\<close> is made on its value as an integer.
\<close>

definition queue_char :: "Bego \<Rightarrow> INPUT list \<Rightarrow> WORD \<Rightarrow> WORD \<times> WORD \<Rightarrow> INPUT list" where
  "queue_char this input_queue character buffer =
    (let utf16_high = (if 0x10000 \<le> uint character then fst buffer else character);
         utf16_low = (if 0x10000 \<le> uint character then snd buffer else 0);
         queue1 =
           input_queue
           @ [create_keybd_event KEYEVENTF_UNICODE 0 utf16_high (dw_extra_info this),
              create_keybd_event (KEYEVENTF_UNICODE OR KEYEVENTF_KEYUP) 0 utf16_high
                (dw_extra_info this)]
     in if utf16_low \<noteq> 0
        then queue1
           @ [create_keybd_event KEYEVENTF_UNICODE 0 utf16_low (dw_extra_info this),
              create_keybd_event (KEYEVENTF_UNICODE OR KEYEVENTF_KEYUP) 0 utf16_low
                (dw_extra_info this)]
        else queue1)"

definition held :: "Bego \<Rightarrow> Key list \<times> ScanCode list" where
  "held this = (held_keys this, held_scancodes this)"

definition get_marker_value :: "Bego \<Rightarrow> size_t" where
  "get_marker_value this = dw_extra_info this"

section \<open>Keyboard operations (\<open>bego_keyboard.cpp\<close>)\<close>

text \<open>
  The body of the loop of \<open>text\<close> for one \<open>char\<close> of the string. \<open>char\<close> is signed, so
  the conversion to \<open>wchar_t\<close> extends the sign.
\<close>

definition text_char :: "winapi \<Rightarrow> Bego \<Rightarrow> INPUT list \<Rightarrow> char \<Rightarrow> error + INPUT list" where
  "text_char os this input c =
    (if c = CHR 0x0A then queue_key os this input Return Click
     else if c = CHR 0x0D then queue_key os this input Return Click
     else if c = CHR 0x09 then queue_key os this input Tab Click
     else if c = CHR 0x00 then Inl (InputError InvalidInput)
     else Inr (queue_char this input (scast (of_char c :: 8 word)) (text_buffer os)))"

fun text_loop :: "winapi \<Rightarrow> Bego \<Rightarrow> INPUT list \<Rightarrow> string \<Rightarrow> error + INPUT list" where
  "text_loop os this input [] = Inr input"
| "text_loop os this input (c # cs) =
    (case text_char os this input c of
       Inl e \<Rightarrow> Inl e
     | Inr input' \<Rightarrow> text_loop os this input' cs)"

text \<open>\<open>Bego::text\<close>; the name \<open>text\<close> is taken by Isabelle.\<close>

definition text_op :: "winapi \<Rightarrow> string \<Rightarrow> Bego \<Rightarrow> error option \<times> Bego" where
  "text_op os s this =
    (if s = [] then (None, this)
     else case text_loop os this [] s of
            Inl e \<Rightarrow> (Some e, this)
          | Inr input \<Rightarrow> send_input os input this)"

text \<open>
  \<open>Bego::key\<close> and \<open>Bego::raw\<close>. The held lists are updated after \<open>send_input\<close> has
  returned; \<open>push_back\<close> appends, and the erase-remove idiom deletes every equal entry.
\<close>

definition key :: "winapi \<Rightarrow> Key \<Rightarrow> Direction \<Rightarrow> Bego \<Rightarrow> error option \<times> Bego" where
  "key os k direction this =
    (case queue_key os this [] k direction of
       Inl e \<Rightarrow> (Some e, this)
     | Inr input \<Rightarrow>
         (case send_input os input this of
            (Some e, this') \<Rightarrow> (Some e, this')
          | (None, this') \<Rightarrow>
              (None,
               case direction of
                 Press \<Rightarrow> this'\<lparr>held_keys := held_keys this' @ [k]\<rparr>
               | Release \<Rightarrow> this'\<lparr>held_keys := removeAll k (held_keys this')\<rparr>
               | Click \<Rightarrow> this')))"

definition raw :: "winapi \<Rightarrow> ScanCode \<Rightarrow> Direction \<Rightarrow> Bego \<Rightarrow> error option \<times> Bego" where
  "raw os scan direction this =
    (let vk = translate_key os scan MAPVK_VSC_TO_VK_EX;
         keyflags =
           (if is_extended_key vk then KEYEVENTF_SCANCODE OR KEYEVENTF_EXTENDEDKEY
            else KEYEVENTF_SCANCODE);
         input1 =
           (if direction = Click \<or> direction = Press
            then [create_keybd_event keyflags vk scan (dw_extra_info this)] else []);
         input2 =
           (if direction = Click \<or> direction = Release
            then input1 @ [create_keybd_event (keyflags OR KEYEVENTF_KEYUP) vk scan
                             (dw_extra_info this)]
            else input1)
     in case send_input os input2 this of
          (Some e, this') \<Rightarrow> (Some e, this')
        | (None, this') \<Rightarrow>
            (None,
             case direction of
               Press \<Rightarrow> this'\<lparr>held_scancodes := held_scancodes this' @ [scan]\<rparr>
             | Release \<Rightarrow> this'\<lparr>held_scancodes := removeAll scan (held_scancodes this')\<rparr>
             | Click \<Rightarrow> this'))"

section \<open>Mouse operations (\<open>bego_mouse.cpp\<close>)\<close>

definition scroll :: "winapi \<Rightarrow> int \<Rightarrow> Axis \<Rightarrow> Bego \<Rightarrow> error option \<times> Bego" where
  "scroll os len axis this =
    (let flags = (if axis = Horizontal then MOUSEEVENTF_HWHEEL else MOUSEEVENTF_WHEEL);
         data =
           (if axis = Horizontal then i32 (len * WHEEL_DELTA)
            else i32 (i32 (- len) * WHEEL_DELTA))
     in send_input os [create_mouse_event flags data 0 0 (dw_extra_info this)] this)"

text \<open>
  The two \<open>switch\<close> statements of \<open>Bego::button\<close>. Each either extends the queue
  (\<open>Inr\<close>) or leaves the function at once (\<open>Inl\<close>, with what the function returns). The
  \<open>default\<close> labels are not reached by a value of the enumeration.
\<close>

definition button_down ::
  "winapi \<Rightarrow> Bego \<Rightarrow> Button \<Rightarrow> int \<Rightarrow> INPUT list \<Rightarrow> (error option \<times> Bego) + INPUT list" where
  "button_down os this b button_no input =
    (case b of
       Button.Left \<Rightarrow>
         Inr (input @ [create_mouse_event MOUSEEVENTF_LEFTDOWN button_no 0 0 (dw_extra_info this)])
     | Middle \<Rightarrow>
         Inr (input @ [create_mouse_event MOUSEEVENTF_MIDDLEDOWN button_no 0 0 (dw_extra_info this)])
     | Button.Right \<Rightarrow>
         Inr (input @ [create_mouse_event MOUSEEVENTF_RIGHTDOWN button_no 0 0 (dw_extra_info this)])
     | Back \<Rightarrow>
         Inr (input @ [create_mouse_event MOUSEEVENTF_XDOWN button_no 0 0 (dw_extra_info this)])
     | Forward \<Rightarrow>
         Inr (input @ [create_mouse_event MOUSEEVENTF_XDOWN button_no 0 0 (dw_extra_info this)])
     | ScrollUp \<Rightarrow> Inl (scroll os (- 1) Vertical this)
     | ScrollDown \<Rightarrow> Inl (scroll os 1 Vertical this)
     | ScrollLeft \<Rightarrow> Inl (scroll os (- 1) Horizontal this)
     | ScrollRight \<Rightarrow> Inl (scroll os 1 Horizontal this))"

definition button_up ::
  "Bego \<Rightarrow> Button \<Rightarrow> int \<Rightarrow> INPUT list \<Rightarrow> (error option \<times> Bego) + INPUT list" where
  "button_up this b button_no input =
    (case b of
       Button.Left \<Rightarrow>
         Inr (input @ [create_mouse_event MOUSEEVENTF_LEFTUP button_no 0 0 (dw_extra_info this)])
     | Middle \<Rightarrow>
         Inr (input @ [create_mouse_event MOUSEEVENTF_MIDDLEUP button_no 0 0 (dw_extra_info this)])
     | Button.Right \<Rightarrow>
         Inr (input @ [create_mouse_event MOUSEEVENTF_RIGHTUP button_no 0 0 (dw_extra_info this)])
     | Back \<Rightarrow>
         Inr (input @ [create_mouse_event MOUSEEVENTF_XUP button_no 0 0 (dw_extra_info this)])
     | Forward \<Rightarrow>
         Inr (input @ [create_mouse_event MOUSEEVENTF_XUP button_no 0 0 (dw_extra_info this)])
     | ScrollUp \<Rightarrow> Inl (None, this)
     | ScrollDown \<Rightarrow> Inl (None, this)
     | ScrollLeft \<Rightarrow> Inl (None, this)
     | ScrollRight \<Rightarrow> Inl (None, this))"

definition button :: "winapi \<Rightarrow> Button \<Rightarrow> Direction \<Rightarrow> Bego \<Rightarrow> error option \<times> Bego" where
  "button os b direction this =
    (let button_no = (if b = Back then 1 else if b = Forward then 2 else 0) in
     case (if direction = Click \<or> direction = Press
           then button_down os this b button_no [] else Inr []) of
       Inl result \<Rightarrow> result
     | Inr input1 \<Rightarrow>
         (case (if direction = Click \<or> direction = Release
                then button_up this b button_no input1 else Inr input1) of
            Inl result \<Rightarrow> result
          | Inr input2 \<Rightarrow> send_input os input2 this))"

definition main_display :: "winapi \<Rightarrow> error + int \<times> int" where
  "main_display os =
    (case GetSystemMetrics_screen os of
       (width, height) \<Rightarrow>
         if width = 0 \<or> height = 0 then Inl (InputError Simulate) else Inr (width, height))"

definition location :: "winapi \<Rightarrow> error + int \<times> int" where
  "location os =
    (case GetCursorPos os of
       None \<Rightarrow> Inl (InputError Simulate)
     | Some (x, y) \<Rightarrow> Inr (x, y))"

text \<open>
  The expression \<open>(v * 65535 + w / 2 * (v >= 0 ? 1 : -1)) / w\<close> that \<open>move_mouse\<close>
  evaluates for \<open>x\<close> with \<open>w\<close> and for \<open>y\<close> with \<open>h\<close>, in 32-bit arithmetic.
\<close>

definition scale_coordinate :: "int \<Rightarrow> int \<Rightarrow> int" where
  "scale_coordinate v w =
    i32 (c_div (i32 (i32 (v * 65535) + i32 (i32 (c_div w 2) * (if 0 \<le> v then 1 else - 1)))) w)"

function move_mouse ::
  "winapi \<Rightarrow> int \<Rightarrow> int \<Rightarrow> Coordinate \<Rightarrow> Bego \<Rightarrow> error option \<times> Bego" where
  "move_mouse os x y Abs this =
    (case main_display os of
       Inl e \<Rightarrow> (Some e, this)
     | Inr (screen_width, screen_height) \<Rightarrow>
         let w = i32 (screen_width - 1);
             h = i32 (screen_height - 1)
         in if w = 0 \<or> h = 0 then (Some DivideByZero, this)
            else
              let dx = scale_coordinate x w;
                  dy = scale_coordinate y h
              in send_input os
                   [create_mouse_event (MOUSEEVENTF_MOVE OR MOUSEEVENTF_ABSOLUTE) 0 dx dy
                      (dw_extra_info this)] this)"
| "move_mouse os x y Rel this =
    (if windows_subject_to_mouse_speed_and_acceleration_level this
     then send_input os [create_mouse_event MOUSEEVENTF_MOVE 0 x y (dw_extra_info this)] this
     else
       case location os of
         Inl e \<Rightarrow> (Some e, this)
       | Inr (current_x, current_y) \<Rightarrow>
           move_mouse os (i32 (current_x + x)) (i32 (current_y + y)) Abs this)"
  by pat_completeness auto
termination
  by (relation "measure (\<lambda>(os, x, y, coordinate, this). if coordinate = Abs then 0 else 1)") auto

section \<open>Teardown\<close>

text \<open>
  The destructor walks \<open>held_keys\<close> with a range-based \<open>for\<close> and calls
  \<open>key(key, Release)\<close> inside a \<open>try\<close> block whose handler is empty. The loop fixes its
  first and last position on entry; the call shortens the vector it walks. The model
  follows the vector's buffer: \<open>buf\<close> has the length the vector had on entry, a prefix of
  it is the current \<open>held_keys\<close>, and the positions behind keep what the erase-remove left
  there. Step \<open>i\<close> reads position \<open>i\<close> of the buffer. An error of the call is dropped, the
  state it left is kept.
\<close>

fun release_held_keys :: "winapi \<Rightarrow> Key list \<Rightarrow> nat \<Rightarrow> nat \<Rightarrow> Bego \<Rightarrow> Bego" where
  "release_held_keys os buf i 0 this = this"
| "release_held_keys os buf i (Suc n) this =
    (let this' = snd (key os (buf ! i) Release this);
         buf' = held_keys this' @ drop (length (held_keys this')) buf
     in release_held_keys os buf' (Suc i) n this')"

fun release_held_scancodes :: "winapi \<Rightarrow> ScanCode list \<Rightarrow> nat \<Rightarrow> nat \<Rightarrow> Bego \<Rightarrow> Bego" where
  "release_held_scancodes os buf i 0 this = this"
| "release_held_scancodes os buf i (Suc n) this =
    (let this' = snd (raw os (buf ! i) Release this);
         buf' = held_scancodes this' @ drop (length (held_scancodes this')) buf
     in release_held_scancodes os buf' (Suc i) n this')"

definition Bego_dtor :: "winapi \<Rightarrow> Bego \<Rightarrow> Bego" where
  "Bego_dtor os this =
    (if \<not> release_keys_when_dropped this then this
     else
       let this1 = release_held_keys os (held_keys this) 0 (length (held_keys this)) this
       in release_held_scancodes os (held_scancodes this1) 0 (length (held_scancodes this1))
            this1)"

section \<open>Sequences of calls\<close>

text \<open>
  A caller's sequence of calls on one instance. An error ends the sequence, as the
  exception leaves the caller's block.
\<close>

datatype call =
    Key_call Key Direction
  | Raw_call ScanCode Direction
  | Text_call string
  | Button_call Button Direction
  | Scroll_call int Axis
  | Move_mouse_call int int Coordinate

fun do_call :: "winapi \<Rightarrow> call \<Rightarrow> Bego \<Rightarrow> error option \<times> Bego" where
  "do_call os (Key_call k d) this = key os k d this"
| "do_call os (Raw_call scan d) this = raw os scan d this"
| "do_call os (Text_call s) this = text_op os s this"
| "do_call os (Button_call b d) this = button os b d this"
| "do_call os (Scroll_call len axis) this = scroll os len axis this"
| "do_call os (Move_mouse_call x y c) this = move_mouse os x y c this"

fun run :: "winapi \<Rightarrow> call list \<Rightarrow> Bego \<Rightarrow> error option \<times> Bego" where
  "run os [] this = (None, this)"
| "run os (c # cs) this =
    (case do_call os c this of
       (Some e, this') \<Rightarrow> (Some e, this')
     | (None, this') \<Rightarrow> run os cs this')"

text \<open>
  For each key, the number of its \<open>Press\<close> calls since its last \<open>Release\<close> call, starting
  from \<open>n\<close>; and the same for a scan code.
\<close>

fun key_presses :: "Key \<Rightarrow> call list \<Rightarrow> nat \<Rightarrow> nat" where
  "key_presses k [] n = n"
| "key_presses k (Key_call k' Press # cs) n = key_presses k cs (if k' = k then Suc n else n)"
| "key_presses k (Key_call k' Release # cs) n = key_presses k cs (if k' = k then 0 else n)"
| "key_presses k (c # cs) n = key_presses k cs n"

fun raw_presses :: "ScanCode \<Rightarrow> call list \<Rightarrow> nat \<Rightarrow> nat" where
  "raw_presses sc [] n = n"
| "raw_presses sc (Raw_call sc' Press # cs) n = raw_presses sc cs (if sc' = sc then Suc n else n)"
| "raw_presses sc (Raw_call sc' Release # cs) n = raw_presses sc cs (if sc' = sc then 0 else n)"
| "raw_presses sc (c # cs) n = raw_presses sc cs n"

section \<open>Shapes of a batch\<close>

text \<open>
  A key-down descriptor has the flag \<open>KEYEVENTF_KEYUP\<close> clear; its key-up descriptor is
  the same descriptor with the flag set. A group is one such pair, or two of them.
\<close>

fun key_down :: "INPUT \<Rightarrow> bool" where
  "key_down (KeybdInput flags vk scan dw_extra) = (flags AND KEYEVENTF_KEYUP = 0)"
| "key_down (MouseInput flags data dx dy dw_extra) = False"

fun key_up_of :: "INPUT \<Rightarrow> INPUT" where
  "key_up_of (KeybdInput flags vk scan dw_extra) =
     KeybdInput (flags OR KEYEVENTF_KEYUP) vk scan dw_extra"
| "key_up_of (MouseInput flags data dx dy dw_extra) = MouseInput flags data dx dy dw_extra"

fun down_up :: "INPUT list \<Rightarrow> bool" where
  "down_up [d, u] = (key_down d \<and> u = key_up_of d)"
| "down_up g = False"

fun down_up_twice :: "INPUT list \<Rightarrow> bool" where
  "down_up_twice [d1, u1, d2, u2] = (down_up [d1, u1] \<and> down_up [d2, u2])"
| "down_up_twice g = False"

section \<open>The scaling formula as the specification words it\<close>

text \<open>
  The specification's \<open>n = (v * 65535 + half_dim * sign(v)) / (dim - 1)\<close> with
  \<open>half_dim = dim / 2\<close> rounded down, over the display dimension \<open>dim\<close>.
\<close>

definition spec_normalize :: "int \<Rightarrow> int \<Rightarrow> int" where
  "spec_normalize v dim = c_div (v * 65535 + dim div 2 * (if 0 \<le> v then 1 else - 1)) (dim - 1)"

section \<open>A concrete system\<close>

text \<open>
  A layout that maps the virtual keys of A, Return and Tab to their scan codes and back
  and knows no other code, a sink that takes every batch, a 1920 by 1080 display and the
  cursor at (100, 200); and the same system with a sink that refuses every batch.
\<close>

definition os_example :: winapi where
  "os_example =
    \<lparr>MapVirtualKeyEx =
       (\<lambda>code map_type.
          if map_type = MAPVK_VK_TO_VSC_EX
          then (if code = 0x41 then 0x1E else if code = 0x0D then 0x1C
                else if code = 0x09 then 0x0F else 0)
          else (if code = 0x1E then 0x41 else if code = 0x1C then 0x0D
                else if code = 0x0F then 0x09 else 0)),
     SendInput_ok = (\<lambda>history batch. True),
     GetSystemMetrics_screen = (1920, 1080),
     GetCursorPos = Some (100, 200),
     text_buffer = (0, 0)\<rparr>"

definition os_refusing :: winapi where
  "os_refusing = os_example\<lparr>SendInput_ok := (\<lambda>history batch. False)\<rparr>"

text \<open>A caller that presses A twice, releases it, presses it again, presses the scan code
  0x1E twice and clicks Tab.\<close>

definition calls_example :: "call list" where
  "calls_example =
    [Key_call Key.A Press, Key_call Key.A Press, Key_call Key.A Release, Key_call Key.A Press,
     Raw_call 0x1E Press, Raw_call 0x1E Press, Key_call Tab Click]"

section \<open>Arithmetic of the 32-bit model\<close>

lemma i32_id: "is_i32 n \<Longrightarrow> i32 n = n"
  by (simp add: i32_def is_i32_def)

lemma c_div_nonneg: "0 \<le> a \<Longrightarrow> 0 < b \<Longrightarrow> c_div a b = a div b"
  by (cases "a = 0") (simp_all add: c_div_def)

lemma c_div_abs: "0 < b \<Longrightarrow> \<bar>c_div a b\<bar> = \<bar>a\<bar> div b"
  by (cases "a = 0") (simp_all add: c_div_def abs_mult pos_imp_zdiv_nonneg_iff)

lemma c_div_bound: "0 < b \<Longrightarrow> \<bar>c_div a b\<bar> \<le> \<bar>a\<bar>"
proof -
  assume b: "0 < b"
  have "\<bar>a\<bar> div b \<le> \<bar>a\<bar> div 1"
    using b by (intro zdiv_mono2) simp_all
  then show ?thesis
    using b by (simp add: c_div_abs)
qed

lemma scale_coordinate_exact:
  assumes w: "0 < w" "is_i32 w"
    and r: "\<bar>v\<bar> * 65535 + w div 2 < 2147483648"
  shows "scale_coordinate v w = c_div (v * 65535 + w div 2 * (if 0 \<le> v then 1 else - 1)) w"
proof -
  define hw where "hw = w div 2"
  define s :: int where "s = (if 0 \<le> v then 1 else - 1)"
  define total where "total = v * 65535 + hw * s"
  have half: "c_div w 2 = hw"
    using w by (simp add: c_div_nonneg hw_def)
  have hw: "0 \<le> hw" "hw \<le> w"
    using w by (simp_all add: hw_def)
  have w_max: "w \<le> 2147483647"
    using w by (simp add: is_i32_def)
  have r': "\<bar>v\<bar> * 65535 + hw < 2147483648"
    using r by (simp add: hw_def)
  have hs: "hw * s = (if 0 \<le> v then hw else - hw)"
    by (simp add: s_def)
  have h1: "i32 hw = hw"
    using hw w_max by (intro i32_id) (simp add: is_i32_def)
  have h2: "i32 (hw * s) = hw * s"
    unfolding hs using hw w_max by (intro i32_id) (simp add: is_i32_def)
  have h3: "i32 (v * 65535) = v * 65535"
    using r' hw by (intro i32_id) (simp add: is_i32_def abs_if split: if_splits)
  have total: "\<bar>total\<bar> < 2147483648"
    unfolding total_def hs using r' hw by (simp add: abs_if split: if_splits)
  have h4: "i32 total = total"
    using total by (intro i32_id) (simp add: is_i32_def abs_if split: if_splits)
  have "\<bar>c_div total w\<bar> < 2147483648"
    using c_div_bound [OF w(1), of total] total by linarith
  then have h5: "i32 (c_div total w) = c_div total w"
    by (intro i32_id) (simp add: is_i32_def abs_if split: if_splits)
  have "scale_coordinate v w = i32 (c_div (i32 (i32 (v * 65535) + i32 (hw * s))) w)"
    by (simp add: scale_coordinate_def half s_def h1)
  also have "\<dots> = c_div total w"
    by (simp add: h2 h3 h4 h5 flip: total_def)
  finally show ?thesis
    by (simp add: total_def hw_def s_def)
qed

lemma scale_coordinate_range:
  assumes "1 \<le> w" "w \<le> 32768" "0 \<le> v" "v \<le> w"
  shows "0 \<le> scale_coordinate v w \<and> scale_coordinate v w \<le> 65535"
proof -
  have half: "0 \<le> w div 2" "w div 2 < w"
    using assms by simp_all
  have "scale_coordinate v w = c_div (v * 65535 + w div 2 * (if 0 \<le> v then 1 else - 1)) w"
    using assms half by (intro scale_coordinate_exact) (simp_all add: is_i32_def)
  also have "\<dots> = (v * 65535 + w div 2) div w"
    using assms half by (simp add: c_div_nonneg)
  finally have eq: "scale_coordinate v w = (v * 65535 + w div 2) div w" .
  have lower: "0 \<le> (v * 65535 + w div 2) div w"
    using assms half by (simp add: pos_imp_zdiv_nonneg_iff)
  have "(v * 65535 + w div 2) div w \<le> (w * 65535 + w div 2) div w"
    using assms by (intro zdiv_mono1) simp_all
  also have "\<dots> = 65535 + (w div 2) div w"
    using assms by simp
  also have "\<dots> = 65535"
    using half by (simp add: div_pos_pos_trivial)
  finally show ?thesis
    using lower eq by simp
qed

section \<open>What each operation leaves unchanged\<close>

lemma count_list_removeAll:
  "count_list (removeAll a xs) b = (if a = b then 0 else count_list xs b)"
  by (induction xs) auto

lemma send_input_frame:
  "held_keys (snd (send_input os input this)) = held_keys this"
  "held_scancodes (snd (send_input os input this)) = held_scancodes this"
  "dw_extra_info (snd (send_input os input this)) = dw_extra_info this"
  "sent (snd (send_input os input this)) = sent this @ [input]"
  by (simp_all add: send_input_def)

lemma key_frame:
  "dw_extra_info (snd (key os k d this)) = dw_extra_info this"
  "held_scancodes (snd (key os k d this)) = held_scancodes this"
  by (simp_all add: key_def send_input_def split: sum.splits Direction.splits)

lemma raw_frame:
  "dw_extra_info (snd (raw os sc d this)) = dw_extra_info this"
  "held_keys (snd (raw os sc d this)) = held_keys this"
  by (simp_all add: raw_def send_input_def Let_def split: Direction.splits)

lemma text_op_frame:
  "dw_extra_info (snd (text_op os s this)) = dw_extra_info this"
  "held_keys (snd (text_op os s this)) = held_keys this"
  "held_scancodes (snd (text_op os s this)) = held_scancodes this"
  by (simp_all add: text_op_def send_input_frame split: sum.splits)

lemma scroll_frame:
  "dw_extra_info (snd (scroll os len axis this)) = dw_extra_info this"
  "held_keys (snd (scroll os len axis this)) = held_keys this"
  "held_scancodes (snd (scroll os len axis this)) = held_scancodes this"
  by (simp_all add: scroll_def send_input_frame Let_def)

lemma button_frame:
  "dw_extra_info (snd (button os b d this)) = dw_extra_info this"
  "held_keys (snd (button os b d this)) = held_keys this"
  "held_scancodes (snd (button os b d this)) = held_scancodes this"
  by (simp_all add: button_def button_down_def button_up_def scroll_frame send_input_frame
      split: Button.splits)

lemma move_mouse_abs_frame:
  "dw_extra_info (snd (move_mouse os x y Abs this)) = dw_extra_info this"
  "held_keys (snd (move_mouse os x y Abs this)) = held_keys this"
  "held_scancodes (snd (move_mouse os x y Abs this)) = held_scancodes this"
  by (simp_all add: send_input_frame Let_def split: sum.splits prod.splits)

lemma move_mouse_frame:
  "dw_extra_info (snd (move_mouse os x y c this)) = dw_extra_info this"
  "held_keys (snd (move_mouse os x y c this)) = held_keys this"
  "held_scancodes (snd (move_mouse os x y c this)) = held_scancodes this"
  by (cases c; simp add: move_mouse_abs_frame send_input_frame split: sum.splits prod.splits
        del: move_mouse.simps(1))+

lemma do_call_marker: "dw_extra_info (snd (do_call os c this)) = dw_extra_info this"
  by (cases c) (simp_all add: key_frame raw_frame text_op_frame button_frame scroll_frame
      move_mouse_frame)

lemma run_marker: "dw_extra_info (snd (run os cs this)) = dw_extra_info this"
proof (induction cs arbitrary: this)
  case Nil
  show ?case by simp
next
  case (Cons c cs)
  obtain r this1 where step: "do_call os c this = (r, this1)"
    by (cases "do_call os c this")
  have "dw_extra_info this1 = dw_extra_info this"
    using do_call_marker [of os c this] step by simp
  then show ?case
    using step Cons.IH [of this1] by (cases r) simp_all
qed

lemma key_held:
  assumes "key os k d this = (None, this1)"
  shows "held_keys this1 =
    (case d of Press \<Rightarrow> held_keys this @ [k]
     | Release \<Rightarrow> removeAll k (held_keys this)
     | Click \<Rightarrow> held_keys this)"
  using assms
  by (auto simp: key_def send_input_def split: sum.splits Direction.splits if_splits)

lemma raw_held:
  assumes "raw os sc d this = (None, this1)"
  shows "held_scancodes this1 =
    (case d of Press \<Rightarrow> held_scancodes this @ [sc]
     | Release \<Rightarrow> removeAll sc (held_scancodes this)
     | Click \<Rightarrow> held_scancodes this)"
  using assms
  by (auto simp: raw_def send_input_def Let_def split: Direction.splits if_splits)

lemma do_call_counts:
  assumes "do_call os c this = (None, this1)"
  shows "count_list (held_keys this1) k = key_presses k [c] (count_list (held_keys this) k)"
    and "count_list (held_scancodes this1) sc =
         raw_presses sc [c] (count_list (held_scancodes this) sc)"
proof -
  have snd: "this1 = snd (do_call os c this)"
    using assms by simp
  show "count_list (held_keys this1) k = key_presses k [c] (count_list (held_keys this) k)"
  proof (cases c)
    case (Key_call k' d)
    then show ?thesis
      using key_held [of os k' d this this1] assms
      by (cases d) (simp_all add: count_list_removeAll)
  qed (simp_all add: snd raw_frame text_op_frame button_frame scroll_frame move_mouse_frame)
  show "count_list (held_scancodes this1) sc =
      raw_presses sc [c] (count_list (held_scancodes this) sc)"
  proof (cases c)
    case (Raw_call sc' d)
    then show ?thesis
      using raw_held [of os sc' d this this1] assms
      by (cases d) (simp_all add: count_list_removeAll)
  qed (simp_all add: snd key_frame text_op_frame button_frame scroll_frame move_mouse_frame)
qed

lemma key_presses_step: "key_presses k (c # cs) n = key_presses k cs (key_presses k [c] n)"
  by (cases "(k, c # cs, n)" rule: key_presses.cases) simp_all

lemma raw_presses_step: "raw_presses sc (c # cs) n = raw_presses sc cs (raw_presses sc [c] n)"
  by (cases "(sc, c # cs, n)" rule: raw_presses.cases) simp_all

lemma run_counts:
  assumes "run os cs this = (None, this1)"
  shows "count_list (held_keys this1) k = key_presses k cs (count_list (held_keys this) k)
    \<and> count_list (held_scancodes this1) sc =
        raw_presses sc cs (count_list (held_scancodes this) sc)"
  using assms
proof (induction cs arbitrary: this)
  case Nil
  then show ?case by simp
next
  case (Cons c cs)
  obtain r this2 where step: "do_call os c this = (r, this2)"
    by (cases "do_call os c this")
  with Cons.prems have r: "r = None" and rest: "run os cs this2 = (None, this1)"
    by (cases r; simp)+
  show ?case
    using Cons.IH [OF rest] do_call_counts(1) [OF step [unfolded r], of k]
      do_call_counts(2) [OF step [unfolded r], of sc]
    by (simp only: key_presses_step [of k c cs] raw_presses_step [of sc c cs])
qed

section \<open>Descriptors of single keys and characters\<close>

lemma key_to_vk_Unicode: "key_to_vk Unicode = Inr 0"
  by (simp add: key_to_vk_def key_map_def)

lemma vk_to_key_zero: "vk_to_key 0 = Inl (InputError Mapping)"
  by (simp add: vk_to_key_def)

lemma key_to_vk_Return: "key_to_vk Return = Inr VK_RETURN"
  by (simp add: key_to_vk_def key_map_def)

lemma key_to_vk_Tab: "key_to_vk Tab = Inr VK_TAB"
  by (simp add: key_to_vk_def key_map_def)

lemma key_to_vk_A: "key_to_vk Key.A = Inr 0x41"
  by (simp add: key_to_vk_def key_map_def)

lemma queue_key_Return_Click:
  "queue_key os this q Return Click =
    Inr (q @ [create_keybd_event 0 VK_RETURN (translate_key os VK_RETURN MAPVK_VK_TO_VSC_EX)
                (dw_extra_info this),
              create_keybd_event KEYEVENTF_KEYUP VK_RETURN
                (translate_key os VK_RETURN MAPVK_VK_TO_VSC_EX) (dw_extra_info this)])"
  by (simp add: queue_key_def key_to_vk_Return is_extended_key_def Let_def)

lemma queue_key_Tab_Click:
  "queue_key os this q Tab Click =
    Inr (q @ [create_keybd_event 0 VK_TAB (translate_key os VK_TAB MAPVK_VK_TO_VSC_EX)
                (dw_extra_info this),
              create_keybd_event KEYEVENTF_KEYUP VK_TAB
                (translate_key os VK_TAB MAPVK_VK_TO_VSC_EX) (dw_extra_info this)])"
  by (simp add: queue_key_def key_to_vk_Tab is_extended_key_def Let_def)

lemma queue_char_shape:
  "\<exists>g. (\<forall>q. queue_char this q wc buf = q @ g) \<and> (down_up g \<or> down_up_twice g)"
proof (cases "(if 0x10000 \<le> uint wc then snd buf else 0) = 0")
  case True
  then have "\<forall>q. queue_char this q wc buf =
      q @ [create_keybd_event KEYEVENTF_UNICODE 0 (if 0x10000 \<le> uint wc then fst buf else wc)
             (dw_extra_info this),
           create_keybd_event (KEYEVENTF_UNICODE OR KEYEVENTF_KEYUP) 0
             (if 0x10000 \<le> uint wc then fst buf else wc) (dw_extra_info this)]"
    by (simp add: queue_char_def Let_def)
  moreover have "down_up
      [create_keybd_event KEYEVENTF_UNICODE 0 (if 0x10000 \<le> uint wc then fst buf else wc)
         (dw_extra_info this),
       create_keybd_event (KEYEVENTF_UNICODE OR KEYEVENTF_KEYUP) 0
         (if 0x10000 \<le> uint wc then fst buf else wc) (dw_extra_info this)]"
    by (simp add: create_keybd_event_def)
  ultimately show ?thesis by blast
next
  case False
  then have "\<forall>q. queue_char this q wc buf =
      q @ [create_keybd_event KEYEVENTF_UNICODE 0 (fst buf) (dw_extra_info this),
           create_keybd_event (KEYEVENTF_UNICODE OR KEYEVENTF_KEYUP) 0 (fst buf)
             (dw_extra_info this),
           create_keybd_event KEYEVENTF_UNICODE 0 (snd buf) (dw_extra_info this),
           create_keybd_event (KEYEVENTF_UNICODE OR KEYEVENTF_KEYUP) 0 (snd buf)
             (dw_extra_info this)]"
    by (simp add: queue_char_def Let_def split: if_splits)
  moreover have "down_up_twice
      [create_keybd_event KEYEVENTF_UNICODE 0 (fst buf) (dw_extra_info this),
       create_keybd_event (KEYEVENTF_UNICODE OR KEYEVENTF_KEYUP) 0 (fst buf)
         (dw_extra_info this),
       create_keybd_event KEYEVENTF_UNICODE 0 (snd buf) (dw_extra_info this),
       create_keybd_event (KEYEVENTF_UNICODE OR KEYEVENTF_KEYUP) 0 (snd buf)
         (dw_extra_info this)]"
    by (simp add: create_keybd_event_def)
  ultimately show ?thesis by blast
qed

text \<open>A \<open>wchar_t\<close> of 16 bits is below \<open>0x10000\<close>: \<open>queue_char\<close> never reads the buffer and
  always queues one pair.\<close>

lemma queue_char_one_pair:
  "queue_char this q character buffer =
    q @ [create_keybd_event KEYEVENTF_UNICODE 0 character (dw_extra_info this),
         create_keybd_event (KEYEVENTF_UNICODE OR KEYEVENTF_KEYUP) 0 character
           (dw_extra_info this)]"
proof -
  have "uint character < 65536"
    using uint_lt2p [of character] by simp
  then show ?thesis
    by (simp add: queue_char_def)
qed

lemma text_char_shape:
  assumes "c \<noteq> CHR 0x00"
  shows "\<exists>g. (\<forall>q. text_char os this q c = Inr (q @ g)) \<and> (down_up g \<or> down_up_twice g)"
proof -
  consider "c = CHR 0x0A \<or> c = CHR 0x0D" | "c = CHR 0x09"
    | "c \<noteq> CHR 0x0A" "c \<noteq> CHR 0x0D" "c \<noteq> CHR 0x09"
    by blast
  then show ?thesis
  proof cases
    case 1
    then have "\<forall>q. text_char os this q c = queue_key os this q Return Click"
      by (auto simp: text_char_def)
    then show ?thesis
      unfolding queue_key_Return_Click
      by (intro exI conjI disjI1, assumption) (simp add: create_keybd_event_def)
  next
    case 2
    then have "\<forall>q. text_char os this q c = queue_key os this q Tab Click"
      by (auto simp: text_char_def)
    then show ?thesis
      unfolding queue_key_Tab_Click
      by (intro exI conjI disjI1, assumption) (simp add: create_keybd_event_def)
  next
    case 3
    then have "\<forall>q. text_char os this q c =
        Inr (queue_char this q (scast (of_char c :: 8 word)) (text_buffer os))"
      using assms by (simp add: text_char_def)
    then show ?thesis
      using queue_char_shape [of this "scast (of_char c :: 8 word)" "text_buffer os"] by auto
  qed
qed

lemma text_loop_null:
  "CHR 0x00 \<in> set s \<Longrightarrow> text_loop os this q s = Inl (InputError InvalidInput)"
proof (induction s arbitrary: q)
  case Nil
  then show ?case by simp
next
  case (Cons c cs)
  show ?case
  proof (cases "c = CHR 0x00")
    case True
    then show ?thesis by (simp add: text_char_def)
  next
    case False
    then obtain g where "text_char os this q c = Inr (q @ g)"
      using text_char_shape [of c os this] by blast
    then show ?thesis
      using Cons False by simp
  qed
qed

lemma text_loop_groups:
  assumes "CHR 0x00 \<notin> set s"
  shows "\<exists>groups.
    list_all2 (\<lambda>c g. text_char os this [] c = Inr g \<and> (down_up g \<or> down_up_twice g)) s groups
    \<and> (\<forall>q. text_loop os this q s = Inr (q @ concat groups))"
  using assms
proof (induction s)
  case Nil
  then show ?case by simp
next
  case (Cons c cs)
  then obtain groups where
    groups: "list_all2 (\<lambda>c g. text_char os this [] c = Inr g \<and> (down_up g \<or> down_up_twice g))
               cs groups"
    and loop: "\<And>q. text_loop os this q cs = Inr (q @ concat groups)"
    by auto
  from Cons.prems obtain g where
    g: "\<And>q. text_char os this q c = Inr (q @ g)" and shape: "down_up g \<or> down_up_twice g"
    using text_char_shape [of c os this] by auto
  have "list_all2 (\<lambda>c g. text_char os this [] c = Inr g \<and> (down_up g \<or> down_up_twice g))
          (c # cs) (g # groups)"
    using groups g [of "[]"] shape by simp
  moreover have "\<forall>q. text_loop os this q (c # cs) = Inr (q @ concat (g # groups))"
    by (simp add: g loop)
  ultimately show ?case by blast
qed

lemma key_A_Release_sent:
  "sent (snd (key os Key.A Release this)) =
     sent this @ [[create_keybd_event KEYEVENTF_KEYUP 0x41
                     (translate_key os 0x41 MAPVK_VK_TO_VSC_EX) (dw_extra_info this)]]"
  by (simp add: key_def queue_key_def key_to_vk_A is_extended_key_def send_input_def Let_def)

lemmas system_defs =
  os_example_def os_refusing_def Settings_ctor_def Bego_ctor_def send_input_def
  translate_key_def is_extended_key_def create_keybd_event_def create_mouse_event_def
  queue_key_def key_to_vk_A key_to_vk_Return key_to_vk_Tab Let_def

section \<open>Held keys and scan codes\<close>

text \<open>
  Claim C1 says that the held lists never hold an identifier twice and that a \<open>Press\<close> of
  a held identifier changes nothing. \<open>Bego::key\<close> and \<open>Bego::raw\<close> append on every
  \<open>Press\<close> and look for no earlier entry: on the concrete system, one \<open>Press\<close> of
  \<open>Key::A\<close> gives the held keys \<open>[A]\<close>, a second one gives \<open>[A, A]\<close>, and two
  \<open>Press\<close> calls of the scan code 0x1E leave it held twice.
\<close>

theorem held_duplicate_counterexample:
  "held (snd (run os_example [Key_call Key.A Press] (Bego_ctor Settings_ctor))) = ([Key.A], [])
   \<and> fst (run os_example [Key_call Key.A Press, Key_call Key.A Press] (Bego_ctor Settings_ctor))
       = None
   \<and> held (snd (run os_example [Key_call Key.A Press, Key_call Key.A Press]
                  (Bego_ctor Settings_ctor))) = ([Key.A, Key.A], [])
   \<and> held (snd (run os_example [Raw_call 0x1E Press, Raw_call 0x1E Press]
                  (Bego_ctor Settings_ctor))) = ([], [0x1E, 0x1E])"
  by (simp add: key_def raw_def held_def system_defs)

text \<open>
  Claim C1, amended. After a sequence of calls on a fresh instance that all return, the held
  keys hold each key once for every \<open>Press\<close> of it since its last \<open>Release\<close> (a
  \<open>Release\<close> removes every entry of the key, \<open>Click\<close> and the other operations change
  nothing), and the held scan codes do the same for \<open>raw\<close>. So an identifier is held twice
  exactly when it was pressed twice with no release in between.
\<close>

theorem held_counts:
  assumes "run os cs (Bego_ctor settings) = (None, this)"
  shows "count_list (fst (held this)) k = key_presses k cs 0
    \<and> count_list (snd (held this)) sc = raw_presses sc cs 0"
  using run_counts [OF assms, of k sc] by (simp add: held_def Bego_ctor_def)

text \<open>
  The amended claim on the concrete system and the caller \<open>calls_example\<close>: \<open>A\<close>,
  pressed twice, released and pressed again, is held once; the scan code 0x1E, pressed
  twice, is held twice.
\<close>

theorem held_counts_witness:
  "run os_example calls_example (Bego_ctor Settings_ctor)
     = (None, snd (run os_example calls_example (Bego_ctor Settings_ctor)))
   \<and> held (snd (run os_example calls_example (Bego_ctor Settings_ctor)))
       = ([Key.A], [0x1E, 0x1E])
   \<and> count_list (fst (held (snd (run os_example calls_example (Bego_ctor Settings_ctor)))))
        Key.A = 1
   \<and> count_list (snd (held (snd (run os_example calls_example (Bego_ctor Settings_ctor)))))
        0x1E = 2"
proof -
  have ok: "run os_example calls_example (Bego_ctor Settings_ctor)
      = (None, snd (run os_example calls_example (Bego_ctor Settings_ctor)))"
    by (simp add: calls_example_def key_def raw_def system_defs)
  have state: "held (snd (run os_example calls_example (Bego_ctor Settings_ctor)))
      = ([Key.A], [0x1E, 0x1E])"
    by (simp add: calls_example_def key_def raw_def held_def system_defs)
  have counts: "key_presses Key.A calls_example 0 = 1" "raw_presses 0x1E calls_example 0 = 2"
    by (simp_all add: calls_example_def)
  show ?thesis
    using ok state held_counts [OF ok, of Key.A "0x1E"] by (simp only: counts simp_thms)
qed

section \<open>Absolute coordinates\<close>

text \<open>
  Claim C2 takes \<open>half_dim\<close> to be half the display dimension. The source adds half of
  \<open>dim - 1\<close>, the divisor. On the 1920 by 1080 display the two differ at \<open>x = 83\<close> and
  \<open>y = 549\<close>: the descriptor carries (2834, 33344), the claimed formula gives
  (2835, 33345).
\<close>

theorem move_mouse_spec_formula_counterexample:
  "sent (snd (move_mouse os_example 83 549 Abs (Bego_ctor Settings_ctor))) =
     [[create_mouse_event (MOUSEEVENTF_MOVE OR MOUSEEVENTF_ABSOLUTE) 0 2834 33344 EVENT_MARKER]]
   \<and> spec_normalize 83 1920 = 2835 \<and> spec_normalize 549 1080 = 33345"
  by (simp add: main_display_def scale_coordinate_def i32_def c_div_def spec_normalize_def
      system_defs)

text \<open>
  Claim C2, amended. For a display of at least two pixels in each dimension and
  coordinates whose scaled value fits 32 bits, \<open>move_mouse(x, y, Abs)\<close> hands the sink one
  descriptor whose coordinates are \<open>(v * 65535 + half * sign(v)) / (dim - 1)\<close> with
  \<open>half = (dim - 1) / 2\<close> rounded down, \<open>sign(v)\<close> 1 for \<open>v \<ge> 0\<close> and -1 otherwise, and the
  division truncating towards zero.
\<close>

theorem move_mouse_abs_formula:
  assumes "GetSystemMetrics_screen os = (width, height)"
    and "2 \<le> width" "is_i32 width" "2 \<le> height" "is_i32 height"
    and "\<bar>x\<bar> * 65535 + (width - 1) div 2 < 2147483648"
    and "\<bar>y\<bar> * 65535 + (height - 1) div 2 < 2147483648"
  shows "move_mouse os x y Abs this =
    send_input os
      [create_mouse_event (MOUSEEVENTF_MOVE OR MOUSEEVENTF_ABSOLUTE) 0
         (c_div (x * 65535 + (width - 1) div 2 * (if 0 \<le> x then 1 else - 1)) (width - 1))
         (c_div (y * 65535 + (height - 1) div 2 * (if 0 \<le> y then 1 else - 1)) (height - 1))
         (dw_extra_info this)] this"
proof -
  have w: "i32 (width - 1) = width - 1" and h: "i32 (height - 1) = height - 1"
    using assms by (simp_all add: i32_id is_i32_def)
  have dx: "scale_coordinate x (width - 1) =
      c_div (x * 65535 + (width - 1) div 2 * (if 0 \<le> x then 1 else - 1)) (width - 1)"
    using assms by (intro scale_coordinate_exact) (simp_all add: is_i32_def)
  have dy: "scale_coordinate y (height - 1) =
      c_div (y * 65535 + (height - 1) div 2 * (if 0 \<le> y then 1 else - 1)) (height - 1)"
    using assms by (intro scale_coordinate_exact) (simp_all add: is_i32_def)
  show ?thesis
    using assms(1,2,4) by (simp add: main_display_def w h dx dy Let_def)
qed

text \<open>
  The amended formula on the 1920 by 1080 display, with a negative \<open>y\<close> to show the
  direction of the rounding.
\<close>

theorem move_mouse_abs_formula_witness:
  "GetSystemMetrics_screen os_example = (1920, 1080)
   \<and> is_i32 1920 \<and> is_i32 1080
   \<and> \<bar>83\<bar> * 65535 + (1920 - 1) div 2 < (2147483648 :: int)
   \<and> \<bar>- 549\<bar> * 65535 + (1080 - 1) div 2 < (2147483648 :: int)
   \<and> move_mouse os_example 83 (- 549) Abs (Bego_ctor Settings_ctor) =
       send_input os_example
         [create_mouse_event (MOUSEEVENTF_MOVE OR MOUSEEVENTF_ABSOLUTE) 0 2834 (- 33344)
            EVENT_MARKER]
         (Bego_ctor Settings_ctor)"
  using move_mouse_abs_formula [of os_example 1920 1080 83 "- 549" "Bego_ctor Settings_ctor"]
  by (simp add: os_example_def is_i32_def c_div_def Bego_ctor_def Settings_ctor_def)

text \<open>
  Claim C3 bounds the normalised coordinates by 0 and 65535 for every display of at least
  two pixels and every pixel on it, which is what the source's own comments promise
  (``Scale coordinates to 0-65535 range''). The source computes the product
  \<open>x * 65535\<close> in a 32-bit \<open>int\<close>, which overflows from \<open>x = 32769\<close> on. On a display 40000
  pixels wide the last pixel, \<open>x = 39999\<close>, is on the display, and the descriptor that
  \<open>move_mouse\<close> hands to the sink carries -41841 for it.
\<close>

theorem move_mouse_overflow_failing_input:
  "sent (snd (move_mouse (os_example\<lparr>GetSystemMetrics_screen := (40000, 1080)\<rparr>) 39999 0 Abs
                (Bego_ctor Settings_ctor))) =
     [[create_mouse_event (MOUSEEVENTF_MOVE OR MOUSEEVENTF_ABSOLUTE) 0 (- 41841) 0
         EVENT_MARKER]]"
  by (simp add: main_display_def scale_coordinate_def i32_def c_div_def system_defs)

text \<open>
  Where the product does not overflow the bound holds: for display dimensions from 2 to
  32769 and \<open>x\<close>, \<open>y\<close> on the display, both normalised coordinates lie in 0..65535, and
  a second call with the same arguments hands the sink the same descriptor again.
\<close>

lemma move_mouse_abs_range:
  assumes "GetSystemMetrics_screen os = (width, height)"
    and "2 \<le> width" "width \<le> 32769" "2 \<le> height" "height \<le> 32769"
    and "0 \<le> x" "x \<le> width - 1" "0 \<le> y" "y \<le> height - 1"
  shows "\<exists>nx ny. 0 \<le> nx \<and> nx \<le> 65535 \<and> 0 \<le> ny \<and> ny \<le> 65535
    \<and> move_mouse os x y Abs this =
        send_input os
          [create_mouse_event (MOUSEEVENTF_MOVE OR MOUSEEVENTF_ABSOLUTE) 0 nx ny
             (dw_extra_info this)] this
    \<and> sent (snd (move_mouse os x y Abs (snd (move_mouse os x y Abs this)))) =
        sent this
        @ [[create_mouse_event (MOUSEEVENTF_MOVE OR MOUSEEVENTF_ABSOLUTE) 0 nx ny
              (dw_extra_info this)],
           [create_mouse_event (MOUSEEVENTF_MOVE OR MOUSEEVENTF_ABSOLUTE) 0 nx ny
              (dw_extra_info this)]]"
proof -
  have w: "i32 (width - 1) = width - 1" and h: "i32 (height - 1) = height - 1"
    using assms by (simp_all add: i32_id is_i32_def)
  have rx: "0 \<le> scale_coordinate x (width - 1) \<and> scale_coordinate x (width - 1) \<le> 65535"
    using assms by (intro scale_coordinate_range) simp_all
  have ry: "0 \<le> scale_coordinate y (height - 1) \<and> scale_coordinate y (height - 1) \<le> 65535"
    using assms by (intro scale_coordinate_range) simp_all
  have eq: "move_mouse os x y Abs st =
      send_input os
        [create_mouse_event (MOUSEEVENTF_MOVE OR MOUSEEVENTF_ABSOLUTE) 0
           (scale_coordinate x (width - 1)) (scale_coordinate y (height - 1))
           (dw_extra_info st)] st" for st
    using assms(1,2,4) by (simp add: main_display_def w h Let_def)
  show ?thesis
    apply (rule exI [where x = "scale_coordinate x (width - 1)"])
    apply (rule exI [where x = "scale_coordinate y (height - 1)"])
    using rx ry apply (simp only: eq)
    apply (simp add: send_input_def)
    done
qed

text \<open>
  The bottom right pixel of the 1920 by 1080 display is sent as (65535, 65535).
\<close>

lemma move_mouse_abs_range_example:
  "GetSystemMetrics_screen os_example = (1920, 1080)
   \<and> (\<exists>nx ny. 0 \<le> nx \<and> nx \<le> 65535 \<and> 0 \<le> ny \<and> ny \<le> 65535
        \<and> move_mouse os_example 1919 1079 Abs (Bego_ctor Settings_ctor) =
            send_input os_example
              [create_mouse_event (MOUSEEVENTF_MOVE OR MOUSEEVENTF_ABSOLUTE) 0 nx ny
                 (dw_extra_info (Bego_ctor Settings_ctor))] (Bego_ctor Settings_ctor)
        \<and> sent (snd (move_mouse os_example 1919 1079 Abs
                   (snd (move_mouse os_example 1919 1079 Abs (Bego_ctor Settings_ctor))))) =
            sent (Bego_ctor Settings_ctor)
            @ [[create_mouse_event (MOUSEEVENTF_MOVE OR MOUSEEVENTF_ABSOLUTE) 0 nx ny
                  (dw_extra_info (Bego_ctor Settings_ctor))],
               [create_mouse_event (MOUSEEVENTF_MOVE OR MOUSEEVENTF_ABSOLUTE) 0 nx ny
                  (dw_extra_info (Bego_ctor Settings_ctor))]])
   \<and> sent (snd (move_mouse os_example 1919 1079 Abs (Bego_ctor Settings_ctor))) =
       [[create_mouse_event (MOUSEEVENTF_MOVE OR MOUSEEVENTF_ABSOLUTE) 0 65535 65535
           EVENT_MARKER]]"
proof -
  have screen: "GetSystemMetrics_screen os_example = (1920, 1080)"
    by (simp add: os_example_def)
  have concrete: "sent (snd (move_mouse os_example 1919 1079 Abs (Bego_ctor Settings_ctor))) =
       [[create_mouse_event (MOUSEEVENTF_MOVE OR MOUSEEVENTF_ABSOLUTE) 0 65535 65535
           EVENT_MARKER]]"
    by (simp add: main_display_def scale_coordinate_def i32_def c_div_def system_defs)
  show ?thesis
    using screen concrete
      move_mouse_abs_range [OF screen, of 1919 1079 "Bego_ctor Settings_ctor"]
    by simp
qed

section \<open>Round trip of the key conversion\<close>

text \<open>
  Claim C4. Every key other than the \<open>Unicode\<close> sentinel has a virtual-key code, and
  \<open>vk_to_key\<close> maps that code back to the key. (The sentinel's code is 0, which
  \<open>vk_to_key\<close> refuses.)
\<close>

theorem vk_to_key_key_to_vk:
  "k \<noteq> Unicode \<Longrightarrow> \<exists>vk. key_to_vk k = Inr vk \<and> vk_to_key vk = Inr k"
  by (cases k) (simp_all add: key_to_vk_def key_map_def vk_to_key_def)

text \<open>
  The round trip of \<open>Key::PageUp\<close> through \<open>VK_PRIOR\<close>.
\<close>

theorem vk_to_key_key_to_vk_witness:
  "Key.PageUp \<noteq> Unicode \<and> key_to_vk PageUp = Inr VK_PRIOR \<and> vk_to_key VK_PRIOR = Inr PageUp"
  using vk_to_key_key_to_vk [of PageUp] by (simp add: key_to_vk_def key_map_def vk_to_key_def)

section \<open>Typing text\<close>

text \<open>
  Claim C5. A string that holds a null character makes \<open>text\<close> fail with
  \<open>InvalidInput\<close>, and the instance is as before the call: no batch was handed to the
  sink.
\<close>

theorem text_null_invalid:
  "CHR 0x00 \<in> set s \<Longrightarrow> text_op os s this = (Some (InputError InvalidInput), this)"
  by (auto simp: text_op_def text_loop_null)

text \<open>
  A null character between two letters: the call fails and nothing is sent, the
  descriptors queued for the first letter included.
\<close>

theorem text_null_invalid_witness:
  "CHR 0x00 \<in> set [CHR ''a'', CHR 0x00, CHR ''b'']
   \<and> text_op os_example [CHR ''a'', CHR 0x00, CHR ''b''] (Bego_ctor Settings_ctor) =
       (Some (InputError InvalidInput), Bego_ctor Settings_ctor)
   \<and> sent (snd (text_op os_example [CHR ''a'', CHR 0x00, CHR ''b''] (Bego_ctor Settings_ctor)))
       = []"
  using text_null_invalid [of "[CHR ''a'', CHR 0x00, CHR ''b'']" os_example
      "Bego_ctor Settings_ctor"]
  by (simp add: Bego_ctor_def)

text \<open>
  What holds of every string without a null character: the batch that \<open>text\<close> hands to
  the sink is the concatenation, in the order of the string, of one group per \<open>char\<close>;
  the group is what the loop body queues for the \<open>char\<close> (a click of Return for newline and
  carriage return, of Tab for the tabulator, the Unicode descriptors otherwise), and it
  is a key-down followed by its key-up, or two such pairs. The empty string sends
  nothing.
\<close>

lemma text_encoding:
  assumes "CHR 0x00 \<notin> set s"
  shows "(\<exists>groups.
      list_all2 (\<lambda>c g. text_char os this [] c = Inr g \<and> (down_up g \<or> down_up_twice g)) s groups
      \<and> text_op os s this =
          (if s = [] then (None, this) else send_input os (concat groups) this))
    \<and> text_char os this [] (CHR 0x0A) = queue_key os this [] Return Click
    \<and> text_char os this [] (CHR 0x0D) = queue_key os this [] Return Click
    \<and> text_char os this [] (CHR 0x09) = queue_key os this [] Tab Click"
proof -
  obtain groups where
    groups: "list_all2 (\<lambda>c g. text_char os this [] c = Inr g \<and> (down_up g \<or> down_up_twice g))
               s groups"
    and loop: "text_loop os this [] s = Inr ([] @ concat groups)"
    using text_loop_groups [OF assms, of os this] by blast
  have "text_op os s this = (if s = [] then (None, this) else send_input os (concat groups) this)"
    using loop by (simp add: text_op_def)
  with groups have "\<exists>groups.
      list_all2 (\<lambda>c g. text_char os this [] c = Inr g \<and> (down_up g \<or> down_up_twice g)) s groups
      \<and> text_op os s this =
          (if s = [] then (None, this) else send_input os (concat groups) this)"
    by blast
  then show ?thesis
    by (simp add: text_char_def)
qed

text \<open>
  The letter a and a newline on the concrete system: the Unicode pair for 0x61, then the
  click of Return.
\<close>

lemma text_encoding_example:
  "CHR 0x00 \<notin> set [CHR ''a'', CHR 0x0A]
   \<and> (\<exists>groups.
        list_all2
          (\<lambda>c g. text_char os_example (Bego_ctor Settings_ctor) [] c = Inr g
             \<and> (down_up g \<or> down_up_twice g))
          [CHR ''a'', CHR 0x0A] groups
        \<and> text_op os_example [CHR ''a'', CHR 0x0A] (Bego_ctor Settings_ctor) =
            send_input os_example (concat groups) (Bego_ctor Settings_ctor))
   \<and> text_op os_example [CHR ''a'', CHR 0x0A] (Bego_ctor Settings_ctor) =
       send_input os_example
         [KeybdInput KEYEVENTF_UNICODE 0 0x61 EVENT_MARKER,
          KeybdInput (KEYEVENTF_UNICODE OR KEYEVENTF_KEYUP) 0 0x61 EVENT_MARKER,
          KeybdInput 0 VK_RETURN 0x1C EVENT_MARKER,
          KeybdInput KEYEVENTF_KEYUP VK_RETURN 0x1C EVENT_MARKER]
         (Bego_ctor Settings_ctor)"
proof -
  have concrete: "text_op os_example [CHR ''a'', CHR 0x0A] (Bego_ctor Settings_ctor) =
       send_input os_example
         [KeybdInput KEYEVENTF_UNICODE 0 0x61 EVENT_MARKER,
          KeybdInput (KEYEVENTF_UNICODE OR KEYEVENTF_KEYUP) 0 0x61 EVENT_MARKER,
          KeybdInput 0 VK_RETURN 0x1C EVENT_MARKER,
          KeybdInput KEYEVENTF_KEYUP VK_RETURN 0x1C EVENT_MARKER]
         (Bego_ctor Settings_ctor)"
    by (simp add: text_op_def text_char_def queue_char_def system_defs)
  have "CHR 0x00 \<notin> set [CHR ''a'', CHR 0x0A]"
    by simp
  from this text_encoding [OF this, of os_example "Bego_ctor Settings_ctor"] concrete
  show ?thesis by simp
qed

text \<open>
  Claim C6 speaks of characters: one UTF-16 code unit, two descriptors, for a character of
  the Basic Multilingual Plane, and the high and the low surrogate, four descriptors, for
  a character beyond it; \<open>queue_char\<close> is documented to do that. The loop of \<open>text\<close> walks
  the \<open>char\<close>s of the string, that is its bytes, and converts each, sign extended, to a
  \<open>wchar_t\<close> of its own. The character U+1F600 is the four bytes F0 9F 98 80 in UTF-8 and
  the surrogate pair D83D DE00 in UTF-16: \<open>text\<close> sends eight descriptors for it, with the
  units FFF0, FF9F, FF98 and FF80. The character U+00E9 given as the single byte E9 is
  sent as the unit FFE9.
\<close>

theorem text_non_ascii_failing_input:
  "text_op os_example [CHR 0xF0, CHR 0x9F, CHR 0x98, CHR 0x80] (Bego_ctor Settings_ctor) =
     send_input os_example
       [KeybdInput KEYEVENTF_UNICODE 0 0xFFF0 EVENT_MARKER,
        KeybdInput (KEYEVENTF_UNICODE OR KEYEVENTF_KEYUP) 0 0xFFF0 EVENT_MARKER,
        KeybdInput KEYEVENTF_UNICODE 0 0xFF9F EVENT_MARKER,
        KeybdInput (KEYEVENTF_UNICODE OR KEYEVENTF_KEYUP) 0 0xFF9F EVENT_MARKER,
        KeybdInput KEYEVENTF_UNICODE 0 0xFF98 EVENT_MARKER,
        KeybdInput (KEYEVENTF_UNICODE OR KEYEVENTF_KEYUP) 0 0xFF98 EVENT_MARKER,
        KeybdInput KEYEVENTF_UNICODE 0 0xFF80 EVENT_MARKER,
        KeybdInput (KEYEVENTF_UNICODE OR KEYEVENTF_KEYUP) 0 0xFF80 EVENT_MARKER]
       (Bego_ctor Settings_ctor)
   \<and> text_op os_example [CHR 0xE9] (Bego_ctor Settings_ctor) =
       send_input os_example
         [KeybdInput KEYEVENTF_UNICODE 0 0xFFE9 EVENT_MARKER,
          KeybdInput (KEYEVENTF_UNICODE OR KEYEVENTF_KEYUP) 0 0xFFE9 EVENT_MARKER]
         (Bego_ctor Settings_ctor)"
  by (simp add: text_op_def text_char_def queue_char_one_pair system_defs)

section \<open>Mouse buttons and movement\<close>

text \<open>
  Claim C7. \<open>button(ScrollUp, Click)\<close> is \<open>scroll(-1, Vertical)\<close>: one wheel descriptor
  with the payload 120 and no button descriptor; and a \<open>Release\<close> of any of the four
  scroll buttons returns without handing anything to the sink.
\<close>

theorem button_scroll_up_is_scroll:
  "button os ScrollUp Click this = scroll os (- 1) Vertical this
   \<and> scroll os (- 1) Vertical this =
       send_input os [create_mouse_event MOUSEEVENTF_WHEEL 120 0 0 (dw_extra_info this)] this
   \<and> button os ScrollUp Release this = (None, this)
   \<and> button os ScrollDown Release this = (None, this)
   \<and> button os ScrollLeft Release this = (None, this)
   \<and> button os ScrollRight Release this = (None, this)"
  by (simp add: button_def button_down_def button_up_def scroll_def i32_def)

text \<open>
  Claim C8. With the acceleration flag off and the cursor at \<open>(cx, cy)\<close>, a relative move
  by \<open>(x, y)\<close> is the absolute move to \<open>(cx + x, cy + y)\<close>, the sums being the 32-bit sums
  of the source; where they do not overflow they are the integer sums.
\<close>

theorem move_mouse_rel_is_abs:
  assumes "\<not> windows_subject_to_mouse_speed_and_acceleration_level this"
    and "GetCursorPos os = Some (cx, cy)"
  shows "move_mouse os x y Rel this = move_mouse os (i32 (cx + x)) (i32 (cy + y)) Abs this
    \<and> (is_i32 (cx + x) \<and> is_i32 (cy + y) \<longrightarrow>
         move_mouse os x y Rel this = move_mouse os (cx + x) (cy + y) Abs this)"
  using assms by (auto simp: location_def i32_id simp del: move_mouse.simps(1))

text \<open>
  From the cursor at (100, 200), the relative move by (10, -20) is the absolute move to
  (110, 180).
\<close>

theorem move_mouse_rel_is_abs_witness:
  "\<not> windows_subject_to_mouse_speed_and_acceleration_level (Bego_ctor Settings_ctor)
   \<and> GetCursorPos os_example = Some (100, 200)
   \<and> is_i32 (100 + 10) \<and> is_i32 (200 + - 20)
   \<and> move_mouse os_example 10 (- 20) Rel (Bego_ctor Settings_ctor) =
       move_mouse os_example 110 180 Abs (Bego_ctor Settings_ctor)
   \<and> sent (snd (move_mouse os_example 10 (- 20) Rel (Bego_ctor Settings_ctor))) =
       [[create_mouse_event (MOUSEEVENTF_MOVE OR MOUSEEVENTF_ABSOLUTE) 0 3757 10933
           EVENT_MARKER]]"
proof -
  have flag: "\<not> windows_subject_to_mouse_speed_and_acceleration_level (Bego_ctor Settings_ctor)"
    by (simp add: Bego_ctor_def Settings_ctor_def)
  have cursor: "GetCursorPos os_example = Some (100, 200)"
    by (simp add: os_example_def)
  have concrete: "sent (snd (move_mouse os_example 110 180 Abs (Bego_ctor Settings_ctor))) =
       [[create_mouse_event (MOUSEEVENTF_MOVE OR MOUSEEVENTF_ABSOLUTE) 0 3757 10933
           EVENT_MARKER]]"
    by (simp add: main_display_def scale_coordinate_def i32_def c_div_def system_defs)
  show ?thesis
    using flag cursor concrete move_mouse_rel_is_abs [OF flag cursor, of 10 "- 20"]
    by (simp add: is_i32_def i32_def del: move_mouse.simps)
qed

section \<open>Press and teardown\<close>

text \<open>
  Claim C9. After \<open>key(Key::A, Press)\<close> has returned on a fresh instance, \<open>held()\<close> is
  \<open>Key::A\<close> alone and no scan code; and with \<open>release_keys_when_dropped\<close> set, the
  destructor hands the sink exactly one more batch, the key-up of \<open>A\<close>, whatever the
  system does with it: the destructor returns the instance and no error.
\<close>

theorem key_press_then_teardown:
  assumes "key os Key.A Press (Bego_ctor settings) = (None, this)"
    and "Settings.release_keys_when_dropped settings"
  shows "held this = ([Key.A], [])
    \<and> sent (Bego_dtor os' this) =
        sent this @ [[create_keybd_event KEYEVENTF_KEYUP 0x41
                        (translate_key os' 0x41 MAPVK_VK_TO_VSC_EX) (dw_extra_info this)]]"
proof -
  have keys: "held_keys this = [Key.A]"
    using key_held [OF assms(1)] by (simp add: Bego_ctor_def)
  have "this = snd (key os Key.A Press (Bego_ctor settings))"
    using assms(1) by simp
  then have scans: "held_scancodes this = []"
    and flag: "release_keys_when_dropped this"
    using assms(2)
    by (simp_all add: key_frame Bego_ctor_def key_def send_input_def split: sum.splits)
  have "Bego_dtor os' this = snd (key os' Key.A Release this)"
    using keys scans flag by (simp add: Bego_dtor_def Let_def key_frame)
  then show ?thesis
    using keys scans by (simp add: held_def key_A_Release_sent)
qed

text \<open>
  On the concrete system the press is logged, and the teardown adds the one key-up both
  when the sink refuses it and when it takes it.
\<close>

theorem key_press_then_teardown_witness:
  "key os_example Key.A Press (Bego_ctor Settings_ctor) =
     (None, snd (key os_example Key.A Press (Bego_ctor Settings_ctor)))
   \<and> Settings.release_keys_when_dropped Settings_ctor
   \<and> held (snd (key os_example Key.A Press (Bego_ctor Settings_ctor))) = ([Key.A], [])
   \<and> sent (Bego_dtor os_refusing (snd (key os_example Key.A Press (Bego_ctor Settings_ctor)))) =
       [[KeybdInput 0 0x41 0x1E EVENT_MARKER], [KeybdInput KEYEVENTF_KEYUP 0x41 0x1E EVENT_MARKER]]
   \<and> sent (Bego_dtor os_example (snd (key os_example Key.A Press (Bego_ctor Settings_ctor)))) =
       [[KeybdInput 0 0x41 0x1E EVENT_MARKER], [KeybdInput KEYEVENTF_KEYUP 0x41 0x1E EVENT_MARKER]]"
proof -
  let ?st = "snd (key os_example Key.A Press (Bego_ctor Settings_ctor))"
  have press: "key os_example Key.A Press (Bego_ctor Settings_ctor) = (None, ?st)"
    by (simp add: key_def system_defs)
  have flag: "Settings.release_keys_when_dropped Settings_ctor"
    by (simp add: Settings_ctor_def)
  have log: "sent ?st = [[KeybdInput 0 0x41 0x1E EVENT_MARKER]]"
    by (simp add: key_def system_defs)
  have tag: "dw_extra_info ?st = EVENT_MARKER"
    by (simp add: key_frame Bego_ctor_def Settings_ctor_def)
  have scan: "translate_key os_refusing 0x41 MAPVK_VK_TO_VSC_EX = 0x1E"
    "translate_key os_example 0x41 MAPVK_VK_TO_VSC_EX = 0x1E"
    by (simp_all add: translate_key_def os_refusing_def os_example_def)
  show ?thesis
    using press flag key_press_then_teardown [OF press flag, of os_refusing]
      key_press_then_teardown [OF press flag, of os_example]
    by (simp add: log tag scan create_keybd_event_def)
qed

section \<open>The marker tag\<close>

text \<open>
  Claim C10. Settings with \<open>windows_dw_extra_info = 0\<close> give an instance whose marker is
  \<open>EVENT_MARKER\<close>; the marker of a new instance is never 0, and no sequence of calls
  changes it.
\<close>

theorem marker_never_zero:
  "(Settings.windows_dw_extra_info settings = 0 \<longrightarrow>
      get_marker_value (Bego_ctor settings) = EVENT_MARKER)
   \<and> get_marker_value (Bego_ctor settings) \<noteq> 0
   \<and> get_marker_value (snd (run os cs (Bego_ctor settings))) \<noteq> 0"
  by (simp add: get_marker_value_def run_marker Bego_ctor_def)

text \<open>
  Settings with the field set to 0: the marker is \<open>EVENT_MARKER\<close>, also after a key
  click and a scroll.
\<close>

theorem marker_never_zero_witness:
  "Settings.windows_dw_extra_info (Settings_ctor\<lparr>Settings.windows_dw_extra_info := 0\<rparr>) = 0
   \<and> get_marker_value (Bego_ctor (Settings_ctor\<lparr>Settings.windows_dw_extra_info := 0\<rparr>))
       = EVENT_MARKER
   \<and> get_marker_value
        (snd (run os_example [Key_call Key.A Click, Scroll_call 3 Vertical]
                (Bego_ctor (Settings_ctor\<lparr>Settings.windows_dw_extra_info := 0\<rparr>)))) \<noteq> 0"
  using marker_never_zero [of "Settings_ctor\<lparr>Settings.windows_dw_extra_info := 0\<rparr>" os_example
      "[Key_call Key.A Click, Scroll_call 3 Vertical]"]
  by simp

end
